theory Spec2Isabelle
  imports Complex_Main
begin

section \<open>EyeTracker.js: numbers, points and JavaScript truthiness\<close>

text \<open>
  JavaScript numbers are modelled as real numbers: every claim below is about the
  algorithms of EyeTracker.js (thresholds, state transitions, sums and means), and the
  rounding of IEEE doubles, NaN and the infinities are outside the model. A two-element
  array \<open>[x, y]\<close> is a pair. A field that holds \<open>null\<close> or a number is a
  \<open>real option\<close>; the test \<open>if (v)\<close> on such a field is false for \<open>null\<close>
  and for the number 0, and \<open>null\<close> counts as 0 in a subtraction.
\<close>

type_synonym point = "real \<times> real"

definition euclideanDistance :: "point \<Rightarrow> point \<Rightarrow> real" where
  "euclideanDistance p1 p2 = sqrt ((fst p2 - fst p1)\<^sup>2 + (snd p2 - snd p1)\<^sup>2)"

fun truthy :: "real option \<Rightarrow> bool" where
  "truthy None = False"
| "truthy (Some v) = (v \<noteq> 0)"

fun num :: "real option \<Rightarrow> real" where
  "num None = 0"
| "num (Some v) = v"

datatype error = TypeError

section \<open>EyeFeatureExtractor: the fixation and saccade segmenter\<close>

record gaze_entry =
  gh_point :: point
  gh_timestamp :: real

record fixation =
  fx_point :: point
  fx_duration :: real
  fx_start :: real
  fx_end :: real

record saccade =
  sc_start :: point
  sc_end :: point
  sc_distance :: real
  sc_duration :: real

record EyeFeatureExtractor =
  fixationRadius :: real
  fixationDuration :: real
  saccadeThreshold :: real
  gazeHistory :: "gaze_entry list"
  fixations :: "fixation list"
  saccades :: "saccade list"
  lastGazePoint :: "point option"
  lastGazeTimestamp :: "real option"
  lastFixationStart :: "real option"
  lastFixationPoint :: "point option"

definition EyeFeatureExtractor_new :: EyeFeatureExtractor where
  "EyeFeatureExtractor_new =
     \<lparr>fixationRadius = 50, fixationDuration = 100, saccadeThreshold = 30,
      gazeHistory = [], fixations = [], saccades = [],
      lastGazePoint = None, lastGazeTimestamp = None,
      lastFixationStart = None, lastFixationPoint = None\<rparr>"

definition reset :: "EyeFeatureExtractor \<Rightarrow> EyeFeatureExtractor" where
  "reset s = s\<lparr>gazeHistory := [], fixations := [], saccades := [],
               lastGazePoint := None, lastGazeTimestamp := None,
               lastFixationStart := None, lastFixationPoint := None\<rparr>"

definition endFixation :: "EyeFeatureExtractor \<Rightarrow> point \<Rightarrow> real \<Rightarrow> EyeFeatureExtractor" where
  "endFixation s pt timestamp =
     (let s1 =
        (if truthy (lastFixationStart s) then
           (let duration = timestamp - num (lastFixationStart s) in
            if duration \<ge> fixationDuration s
            then s\<lparr>fixations := fixations s @
                     [\<lparr>fx_point = pt, fx_duration = duration,
                       fx_start = num (lastFixationStart s), fx_end = timestamp\<rparr>]\<rparr>
            else s)
         else s)
      in s1\<lparr>lastFixationStart := None, lastFixationPoint := None\<rparr>)"

text \<open>
  \<open>processGaze\<close>. The only place that can raise is line 68 of the source, which reads
  \<open>this.lastFixationPoint[0]\<close>: a TypeError when the field is \<open>null\<close>. The
  branches are in the order of the source.
\<close>

definition processGaze :: "EyeFeatureExtractor \<Rightarrow> point \<Rightarrow> real \<Rightarrow> error + EyeFeatureExtractor" where
  "processGaze s0 gazePoint timestamp =
     (let s = s0\<lparr>gazeHistory := gazeHistory s0 @
                   [\<lparr>gh_point = gazePoint, gh_timestamp = timestamp\<rparr>]\<rparr>;
          r =
           (case lastGazePoint s of
              None \<Rightarrow> Inr s
            | Some prev \<Rightarrow>
                (let distance = euclideanDistance prev gazePoint in
                 if distance > saccadeThreshold s then
                   (let s1 = s\<lparr>saccades := saccades s @
                               [\<lparr>sc_start = prev, sc_end = gazePoint, sc_distance = distance,
                                 sc_duration = timestamp - num (lastGazeTimestamp s)\<rparr>]\<rparr>;
                        s2 = (if truthy (lastFixationStart s1)
                              then endFixation s1 prev (num (lastGazeTimestamp s1))
                              else s1)
                    in Inr (s2\<lparr>lastFixationStart := None, lastFixationPoint := None\<rparr>))
                 else if \<not> truthy (lastFixationStart s) then
                   Inr (s\<lparr>lastFixationStart := Some timestamp,
                          lastFixationPoint := Some gazePoint\<rparr>)
                 else if timestamp - num (lastFixationStart s) \<ge> fixationDuration s then
                   (case lastFixationPoint s of
                      None \<Rightarrow> Inl TypeError
                    | Some cand \<Rightarrow>
                        if euclideanDistance cand gazePoint \<le> fixationRadius s then
                          Inr (s\<lparr>lastFixationPoint :=
                                   Some ((fst cand + fst gazePoint) / 2,
                                         (snd cand + snd gazePoint) / 2)\<rparr>)
                        else
                          Inr ((endFixation s cand timestamp)
                                 \<lparr>lastFixationStart := Some timestamp,
                                  lastFixationPoint := Some gazePoint\<rparr>))
                 else Inr s))
      in case r of
           Inl e \<Rightarrow> Inl e
         | Inr s' \<Rightarrow> Inr (s'\<lparr>lastGazePoint := Some gazePoint,
                              lastGazeTimestamp := Some timestamp\<rparr>))"

record metrics =
  gazeDuration :: real
  dwellTime :: real
  saccadeLength :: real
  distractorSaccades :: real
  fixationCount :: nat
  refixationRatio :: real

text \<open>
  \<open>getMetrics\<close> first ends the open fixation candidate (a mutation of the segmenter),
  then reduces the event lists: it returns the metrics and the updated segmenter.
  A JavaScript array is always truthy, so \<open>this.lastGazePoint\<close> is true exactly when
  the field is not \<open>null\<close>.
\<close>

definition flush :: "EyeFeatureExtractor \<Rightarrow> EyeFeatureExtractor" where
  "flush s =
     (case lastGazePoint s of
        Some prev \<Rightarrow>
          if truthy (lastFixationStart s) \<and> truthy (lastGazeTimestamp s)
          then endFixation s prev (num (lastGazeTimestamp s)) else s
      | None \<Rightarrow> s)"

definition aggregate :: "EyeFeatureExtractor \<Rightarrow> metrics" where
  "aggregate s =
     (let totalGazeDuration =
            (if length (gazeHistory s) > 1
             then gh_timestamp (gazeHistory s ! (length (gazeHistory s) - 1))
                  - gh_timestamp (gazeHistory s ! 0)
             else 0);
          fixationCount = length (fixations s);
          totalSaccades = length (saccades s);
          dwellTime = foldl (\<lambda>sum f. sum + fx_duration f) 0 (fixations s);
          refixationRatio =
            (if fixationCount > 0 then (real fixationCount - 1) / real fixationCount else 0);
          saccadeLength =
            (if totalSaccades > 0
             then foldl (\<lambda>sum c. sum + sc_distance c) 0 (saccades s) / real totalSaccades
             else 0)
      in \<lparr>gazeDuration = totalGazeDuration, dwellTime = dwellTime,
          saccadeLength = saccadeLength, distractorSaccades = 0,
          fixationCount = fixationCount, refixationRatio = refixationRatio\<rparr>)"

definition getMetrics :: "EyeFeatureExtractor \<Rightarrow> metrics \<times> EyeFeatureExtractor" where
  "getMetrics s = (aggregate (flush s), flush s)"

text \<open>A sequence of calls on one segmenter; an exception ends the sequence.\<close>

datatype seg_call = ProcessGaze point real | GetMetrics | Reset

fun seg_step :: "EyeFeatureExtractor \<Rightarrow> seg_call \<Rightarrow> error + EyeFeatureExtractor" where
  "seg_step s (ProcessGaze p t) = processGaze s p t"
| "seg_step s GetMetrics = Inr (snd (getMetrics s))"
| "seg_step s Reset = Inr (reset s)"

fun seg_run :: "EyeFeatureExtractor \<Rightarrow> seg_call list \<Rightarrow> error + EyeFeatureExtractor" where
  "seg_run s [] = Inr s"
| "seg_run s (c # cs) = (case seg_step s c of Inl e \<Rightarrow> Inl e | Inr s' \<Rightarrow> seg_run s' cs)"

text \<open>
  The invariant of the segmenter: the two fields of the open candidate are set together,
  every recorded fixation is at least as long as the duration threshold and every
  recorded saccade is longer than the distance threshold.
\<close>

definition seg_inv :: "EyeFeatureExtractor \<Rightarrow> bool" where
  "seg_inv s \<longleftrightarrow>
     (truthy (lastFixationStart s) \<longrightarrow> lastFixationPoint s \<noteq> None) \<and>
     list_all (\<lambda>f. fx_duration f \<ge> fixationDuration s) (fixations s) \<and>
     list_all (\<lambda>c. sc_distance c > saccadeThreshold s) (saccades s)"

definition scenario_B :: "real \<Rightarrow> seg_call list" where
  "scenario_B t0 =
     [ProcessGaze (0, 0) t0, ProcessGaze (5, 5) (t0 + 50), ProcessGaze (8, 8) (t0 + 120)]"

section \<open>Calibrator: target grid, sample collection, fit and prediction\<close>

text \<open>
  The landmark list of the detector is an array of objects \<open>{x, y, z}\<close>; an index
  beyond the array reads \<open>undefined\<close>, which is \<open>None\<close> here.
\<close>

record landmark =
  lm_x :: real
  lm_y :: real
  lm_z :: real

type_synonym landmarks = "nat \<Rightarrow> landmark option"

record sample =
  features :: "real list"
  gaze :: point
  target :: point

record offset_model =
  offsetX :: real
  offsetY :: real

record Calibrator =
  screenWidth :: real
  screenHeight :: real
  calibrationPoints :: "point list"
  gazeData :: "sample list"
  model :: "offset_model option"
  isCalibrating :: bool
  currentCalibrationIndex :: nat
  calibrationTargets :: "point list"
  samplesPerPoint :: nat
  currentSamples :: nat

text \<open>The two nested \<open>for\<close> loops push row by row, column by column.\<close>

definition generateCalibrationTargets :: "real \<Rightarrow> real \<Rightarrow> point list" where
  "generateCalibrationTargets w h =
     (let numRows = 5::nat; numCols = 5::nat;
          xStep = w / (real numCols + 1);
          yStep = h / (real numRows + 1)
      in concat (map (\<lambda>r. map (\<lambda>c. ((real c + 1) * xStep, (real r + 1) * yStep))
                                [0..<numCols])
                     [0..<numRows]))"

definition Calibrator_new :: "real \<Rightarrow> real \<Rightarrow> Calibrator" where
  "Calibrator_new w h =
     \<lparr>screenWidth = w, screenHeight = h, calibrationPoints = [], gazeData = [],
      model = None, isCalibrating = False, currentCalibrationIndex = 0,
      calibrationTargets = generateCalibrationTargets w h,
      samplesPerPoint = 30, currentSamples = 0\<rparr>"

definition startCalibration :: "Calibrator \<Rightarrow> Calibrator" where
  "startCalibration c =
     c\<lparr>isCalibrating := True, currentCalibrationIndex := 0, gazeData := [],
       model := None, currentSamples := 0\<rparr>"

definition extractFeatures :: "landmarks \<Rightarrow> real list" where
  "extractFeatures lms =
     (case (lms 33, lms 133, lms 362, lms 263, lms 468, lms 473) of
        (Some leftEyeOuterCorner, Some leftEyeInnerCorner, Some rightEyeOuterCorner,
         Some rightEyeInnerCorner, Some leftIrisCenter, Some rightIrisCenter) \<Rightarrow>
          [lm_x leftIrisCenter - lm_x leftEyeOuterCorner,
           lm_y leftIrisCenter - lm_y leftEyeOuterCorner,
           lm_x rightIrisCenter - lm_x rightEyeOuterCorner,
           lm_y rightIrisCenter - lm_y rightEyeOuterCorner,
           euclideanDistance (lm_x leftEyeOuterCorner, lm_y leftEyeOuterCorner)
                             (lm_x leftEyeInnerCorner, lm_y leftEyeInnerCorner),
           euclideanDistance (lm_x rightEyeOuterCorner, lm_y rightEyeOuterCorner)
                             (lm_x rightEyeInnerCorner, lm_y rightEyeInnerCorner),
           lm_x leftIrisCenter,
           lm_y leftIrisCenter,
           lm_x rightIrisCenter,
           lm_y rightIrisCenter]
      | _ \<Rightarrow> replicate 10 0)"

text \<open>
  \<open>_trainModel\<close>: the two accumulators of the loop are left folds over the samples.
  The division is by a positive length.
\<close>

definition trainModel :: "Calibrator \<Rightarrow> Calibrator" where
  "trainModel c =
     (if length (gazeData c) = 0 then c\<lparr>model := None\<rparr>
      else
        (let sumOffsetX = foldl (\<lambda>acc d. acc + (fst (target d) - fst (gaze d))) 0 (gazeData c);
             sumOffsetY = foldl (\<lambda>acc d. acc + (snd (target d) - snd (gaze d))) 0 (gazeData c)
         in c\<lparr>model := Some \<lparr>offsetX = sumOffsetX / real (length (gazeData c)),
                             offsetY = sumOffsetY / real (length (gazeData c))\<rparr>\<rparr>))"

definition finishCalibration :: "Calibrator \<Rightarrow> Calibrator" where
  "finishCalibration c = trainModel (c\<lparr>isCalibrating := False\<rparr>)"

text \<open>
  \<open>this.calibrationTargets[i]\<close> is \<open>undefined\<close> beyond the array, and a target (an
  array) is always truthy: \<open>if (!targetPoint) return\<close> is the range check.
\<close>

definition getCurrentCalibrationPoint :: "Calibrator \<Rightarrow> point option" where
  "getCurrentCalibrationPoint c =
     (if currentCalibrationIndex c < length (calibrationTargets c)
      then Some (calibrationTargets c ! currentCalibrationIndex c) else None)"

definition addGazeSample :: "Calibrator \<Rightarrow> landmarks \<Rightarrow> point \<Rightarrow> Calibrator" where
  "addGazeSample c faceLandmarks screenGazePoint =
     (if \<not> isCalibrating c then c
      else
        (case getCurrentCalibrationPoint c of
           None \<Rightarrow> c
         | Some targetPoint \<Rightarrow>
             (let c1 = c\<lparr>gazeData := gazeData c @
                           [\<lparr>features = extractFeatures faceLandmarks,
                             gaze = screenGazePoint, target = targetPoint\<rparr>],
                         currentSamples := currentSamples c + 1\<rparr>
              in if currentSamples c1 \<ge> samplesPerPoint c1 then
                   (let c2 = c1\<lparr>currentCalibrationIndex := currentCalibrationIndex c1 + 1,
                                currentSamples := 0\<rparr>
                    in if currentCalibrationIndex c2 \<ge> length (calibrationTargets c2)
                       then finishCalibration c2 else c2)
                 else c1)))"

definition moveToNextCalibrationPoint :: "Calibrator \<Rightarrow> Calibrator" where
  "moveToNextCalibrationPoint c =
     (if isCalibrating c \<and> currentCalibrationIndex c < length (calibrationTargets c) then
        (let c2 = c\<lparr>currentCalibrationIndex := currentCalibrationIndex c + 1,
                    currentSamples := 0\<rparr>
         in if currentCalibrationIndex c2 \<ge> length (calibrationTargets c2)
            then finishCalibration c2 else c2)
      else c)"

text \<open>
  \<open>predictGaze\<close> returns \<open>null\<close> without a model. The feature vector always has ten
  entries, so positions 6 and 7 exist.
\<close>

definition predictGaze :: "Calibrator \<Rightarrow> landmarks \<Rightarrow> point option" where
  "predictGaze c faceLandmarks =
     (case model c of
        None \<Rightarrow> None
      | Some m \<Rightarrow>
          (let features = extractFeatures faceLandmarks;
               predictedX = features ! 6 + offsetX m;
               predictedY = features ! 7 + offsetY m;
               clampedX = max 0 (min (screenWidth c) predictedX);
               clampedY = max 0 (min (screenHeight c) predictedY)
           in Some (clampedX, clampedY)))"

text \<open>
  The quotient of \<open>getCalibrationProgress\<close> has a positive denominator in every
  calibrator built by the constructor (25 targets, 30 samples per target).
\<close>

definition getCalibrationProgress :: "Calibrator \<Rightarrow> real" where
  "getCalibrationProgress c =
     (if \<not> isCalibrating c then 1
      else
        (let totalSamplesNeeded = length (calibrationTargets c) * samplesPerPoint c;
             collectedSamples = currentCalibrationIndex c * samplesPerPoint c + currentSamples c
         in real collectedSamples / real totalSamplesNeeded))"

text \<open>One calibration run: successive \<open>addGazeSample\<close> calls on one calibrator.\<close>

fun addGazeSamples :: "Calibrator \<Rightarrow> (landmarks \<times> point) list \<Rightarrow> Calibrator" where
  "addGazeSamples c [] = c"
| "addGazeSamples c (x # xs) = addGazeSamples (addGazeSample c (fst x) (snd x)) xs"

text \<open>
  Scenario A: every frame reports the current target moved by \<open>(-5, -5)\<close> as the
  observed gaze.
\<close>

definition observed_A :: "Calibrator \<Rightarrow> point" where
  "observed_A c =
     (case getCurrentCalibrationPoint c of
        Some tg \<Rightarrow> (fst tg - 5, snd tg - 5)
      | None \<Rightarrow> (0, 0))"

fun scenario_A :: "Calibrator \<Rightarrow> landmarks list \<Rightarrow> Calibrator" where
  "scenario_A c [] = c"
| "scenario_A c (l # ls) = scenario_A (addGazeSample c l (observed_A c)) ls"

section \<open>EyeTracker: the per-frame pipeline\<close>

record EyeTracker =
  et_screenWidth :: real
  et_screenHeight :: real
  calibrator :: Calibrator
  featureExtractor :: EyeFeatureExtractor
  et_isCalibrating :: bool
  et_gaze :: point
  currentCalibPoint :: "point option"
  calibrationProgress :: real

record frame_result =
  out_gaze :: point
  out_isCalibrating :: bool
  out_currentCalibPoint :: "point option"
  out_calibrationProgress :: real
  out_features :: metrics

definition EyeTracker_new :: "real \<Rightarrow> real \<Rightarrow> EyeTracker" where
  "EyeTracker_new w h =
     \<lparr>et_screenWidth = w, et_screenHeight = h,
      calibrator = Calibrator_new w h,
      featureExtractor = EyeFeatureExtractor_new,
      et_isCalibrating = False,
      et_gaze = (w / 2, h / 2),
      currentCalibPoint = None,
      calibrationProgress = 0\<rparr>"

definition et_startCalibration :: "EyeTracker \<Rightarrow> EyeTracker" where
  "et_startCalibration t =
     (let c = startCalibration (calibrator t)
      in t\<lparr>et_isCalibrating := True, calibrator := c,
            featureExtractor := reset (featureExtractor t),
            currentCalibPoint := getCurrentCalibrationPoint c,
            calibrationProgress := getCalibrationProgress c\<rparr>)"

definition et_moveToNextCalibrationPoint :: "EyeTracker \<Rightarrow> EyeTracker" where
  "et_moveToNextCalibrationPoint t =
     (let c = moveToNextCalibrationPoint (calibrator t);
          t1 = t\<lparr>calibrator := c,
                  currentCalibPoint := getCurrentCalibrationPoint c,
                  calibrationProgress := getCalibrationProgress c\<rparr>
      in if \<not> et_isCalibrating t1 then t1\<lparr>currentCalibPoint := None\<rparr> else t1)"

text \<open>
  \<open>processLandmarks\<close>, in three steps as in the source: the raw gaze point from the
  two iris centres, the calibration step (only while the tracker's own flag
  \<open>isCalibrating\<close> is set), and the choice of the point that is fed to the segmenter.
\<close>

definition rawGazePoint :: "EyeTracker \<Rightarrow> landmark \<Rightarrow> landmark \<Rightarrow> point" where
  "rawGazePoint t leftIrisCenter rightIrisCenter =
     (let rawGazeX = (lm_x leftIrisCenter + lm_x rightIrisCenter) / 2;
          rawGazeY = (lm_y leftIrisCenter + lm_y rightIrisCenter) / 2;
          screenGazeX = rawGazeX * et_screenWidth t;
          screenGazeY = rawGazeY * et_screenHeight t
      in (screenGazeX, screenGazeY))"

definition calibration_step :: "EyeTracker \<Rightarrow> landmarks \<Rightarrow> point \<Rightarrow> EyeTracker" where
  "calibration_step t lms raw =
     (if et_isCalibrating t then
        (let c = addGazeSample (calibrator t) lms raw;
             t1 = t\<lparr>calibrator := c,
                     currentCalibPoint := getCurrentCalibrationPoint c,
                     calibrationProgress := getCalibrationProgress c\<rparr>
         in if \<not> isCalibrating c then t1\<lparr>et_isCalibrating := False\<rparr> else t1)
      else t)"

definition predictedGaze :: "EyeTracker \<Rightarrow> landmarks \<Rightarrow> point \<Rightarrow> point option" where
  "predictedGaze t lms raw =
     (case model (calibrator t) of
        None \<Rightarrow> Some raw
      | Some m \<Rightarrow> predictGaze (calibrator t) lms)"

definition frame_output :: "EyeTracker \<Rightarrow> metrics \<Rightarrow> frame_result" where
  "frame_output t m =
     \<lparr>out_gaze = et_gaze t, out_isCalibrating = et_isCalibrating t,
      out_currentCalibPoint = currentCalibPoint t,
      out_calibrationProgress = calibrationProgress t,
      out_features = m\<rparr>"

definition processLandmarks ::
    "EyeTracker \<Rightarrow> landmarks \<Rightarrow> real \<Rightarrow> error + (frame_result option \<times> EyeTracker)" where
  "processLandmarks t lms timestamp =
     (case (lms 468, lms 473) of
        (Some leftIrisCenter, Some rightIrisCenter) \<Rightarrow>
          (let raw = rawGazePoint t leftIrisCenter rightIrisCenter;
               t1 = calibration_step t lms raw;
               fed = (case predictedGaze t1 lms raw of
                        None \<Rightarrow> Inr t1
                      | Some g \<Rightarrow>
                          (case processGaze (featureExtractor t1) g timestamp of
                             Inl e \<Rightarrow> Inl e
                           | Inr fe \<Rightarrow> Inr (t1\<lparr>et_gaze := g, featureExtractor := fe\<rparr>)))
           in case fed of
                Inl e \<Rightarrow> Inl e
              | Inr t2 \<Rightarrow>
                  (let mf = getMetrics (featureExtractor t2);
                       t3 = t2\<lparr>featureExtractor := snd mf\<rparr>
                   in Inr (Some (frame_output t3 (fst mf)), t3)))
      | _ \<Rightarrow> Inr (None, t))"

text \<open>A session: calls on one tracker, with the result of every frame.\<close>

datatype et_call = ProcessLandmarks landmarks real | StartCalibration | MoveToNextCalibrationPoint

fun et_step :: "EyeTracker \<Rightarrow> et_call \<Rightarrow> error + (frame_result option list \<times> EyeTracker)" where
  "et_step t (ProcessLandmarks lms ts) =
     (case processLandmarks t lms ts of
        Inl e \<Rightarrow> Inl e
      | Inr (r, t') \<Rightarrow> Inr ([r], t'))"
| "et_step t StartCalibration = Inr ([], et_startCalibration t)"
| "et_step t MoveToNextCalibrationPoint = Inr ([], et_moveToNextCalibrationPoint t)"

fun et_run :: "EyeTracker \<Rightarrow> et_call list \<Rightarrow> error + (frame_result option list \<times> EyeTracker)" where
  "et_run t [] = Inr ([], t)"
| "et_run t (c # cs) =
     (case et_step t c of
        Inl e \<Rightarrow> Inl e
      | Inr (rs, t') \<Rightarrow>
          (case et_run t' cs of
             Inl e \<Rightarrow> Inl e
           | Inr (rs', t'') \<Rightarrow> Inr (rs @ rs', t'')))"

text \<open>A dwell of 190 ms followed by a jump: one fixation and one saccade are recorded.\<close>

definition dwell_then_jump :: "seg_call list" where
  "dwell_then_jump =
     [ProcessGaze (0, 0) 1000, ProcessGaze (1, 1) 1010, ProcessGaze (2, 2) 1200,
      ProcessGaze (100, 100) 1300]"

text \<open>Landmark inputs for concrete runs.\<close>

definition eye_landmarks :: landmarks where
  "eye_landmarks =
     Map.empty(33 \<mapsto> \<lparr>lm_x = 1, lm_y = 2, lm_z = 0\<rparr>,
               133 \<mapsto> \<lparr>lm_x = 4, lm_y = 6, lm_z = 0\<rparr>,
               362 \<mapsto> \<lparr>lm_x = 10, lm_y = 2, lm_z = 0\<rparr>,
               263 \<mapsto> \<lparr>lm_x = 7, lm_y = 6, lm_z = 0\<rparr>,
               468 \<mapsto> \<lparr>lm_x = 3, lm_y = 4, lm_z = 0\<rparr>,
               473 \<mapsto> \<lparr>lm_x = 8, lm_y = 5, lm_z = 0\<rparr>)"

definition iris_landmarks :: landmarks where
  "iris_landmarks =
     Map.empty(468 \<mapsto> \<lparr>lm_x = 1 / 2, lm_y = 1 / 2, lm_z = 0\<rparr>,
               473 \<mapsto> \<lparr>lm_x = 1 / 2, lm_y = 1 / 2, lm_z = 0\<rparr>)"

text \<open>
  The state of a calibration run after \<open>n\<close> samples: the target index and the
  per-target counter are the quotient and the remainder of \<open>n\<close> by 30, until the
  750th sample ends the run.
\<close>

definition run_inv :: "nat \<Rightarrow> Calibrator \<Rightarrow> bool" where
  "run_inv n c \<longleftrightarrow>
     length (calibrationTargets c) = 25 \<and> samplesPerPoint c = 30 \<and>
     (\<forall>k < length (gazeData c). target (gazeData c ! k) = calibrationTargets c ! (k div 30)) \<and>
     (if n < 750
      then isCalibrating c \<and> currentCalibrationIndex c = n div 30 \<and>
           currentSamples c = n mod 30 \<and> length (gazeData c) = n
      else \<not> isCalibrating c \<and> length (gazeData c) = 750)"

definition shifted :: "sample \<Rightarrow> bool" where
  "shifted d \<longleftrightarrow> gaze d = (fst (target d) - 5, snd (target d) - 5)"

definition shift_inv :: "nat \<Rightarrow> Calibrator \<Rightarrow> bool" where
  "shift_inv n c \<longleftrightarrow>
     list_all shifted (gazeData c) \<and>
     (750 \<le> n \<longrightarrow> model c = Some \<lparr>offsetX = 5, offsetY = 5\<rparr>)"

text \<open>
  The pipeline never leaves a candidate open across frames and never records a
  fixation: the state of the segmenter inside a tracker between two calls.
\<close>

definition et_inv :: "EyeTracker \<Rightarrow> bool" where
  "et_inv t \<longleftrightarrow>
     fixations (featureExtractor t) = [] \<and>
     \<not> truthy (lastFixationStart (featureExtractor t)) \<and>
     0 < fixationDuration (featureExtractor t)"

text \<open>Three frames with the gaze resting on one place for 300 ms.\<close>

definition dwell_frames :: "et_call list" where
  "dwell_frames =
     [ProcessLandmarks iris_landmarks 1000, ProcessLandmarks iris_landmarks 1100,
      ProcessLandmarks iris_landmarks 1300]"

text \<open>
  One calibration run on a new calibrator: \<open>startCalibration\<close>, then the samples.
\<close>

definition calibration_run :: "real \<Rightarrow> real \<Rightarrow> (landmarks \<times> point) list \<Rightarrow> Calibrator" where
  "calibration_run w h xs = addGazeSamples (startCalibration (Calibrator_new w h)) xs"

definition trained_calibrator :: Calibrator where
  "trained_calibrator = (Calibrator_new 360 640)\<lparr>model := Some \<lparr>offsetX = 500, offsetY = - 500\<rparr>\<rparr>"

text \<open>
  A calibrator built for a window of negative size and trained through the interface:
  one sample at the first target, then \<open>finishCalibration\<close>.
\<close>

definition negative_screen_calibrator :: Calibrator where
  "negative_screen_calibrator =
     finishCalibration
       (addGazeSample (startCalibration (Calibrator_new (- 10) (- 20))) eye_landmarks (0, 0))"

section \<open>Distances against thresholds\<close>

lemma sqrt_gt_iff: "0 \<le> t \<Longrightarrow> t < sqrt x \<longleftrightarrow> t\<^sup>2 < x"
  by (metis real_sqrt_less_iff real_sqrt_abs abs_of_nonneg)

lemma sqrt_le_iff: "0 \<le> t \<Longrightarrow> sqrt x \<le> t \<longleftrightarrow> x \<le> t\<^sup>2"
  by (metis real_sqrt_le_iff real_sqrt_abs abs_of_nonneg)

lemma ex_half: "\<exists>a::real. x = a * 2"
  by (rule exI[of _ "x / 2"]) simp

section \<open>The segmenter keeps its invariant\<close>

lemma endFixation_thresholds:
  "fixationDuration (endFixation s p t) = fixationDuration s"
  "saccadeThreshold (endFixation s p t) = saccadeThreshold s"
  "fixationRadius (endFixation s p t) = fixationRadius s"
  "saccades (endFixation s p t) = saccades s"
  "lastFixationStart (endFixation s p t) = None"
  by (simp_all add: endFixation_def Let_def)

lemma endFixation_fixations:
  "list_all (\<lambda>f. fx_duration f \<ge> fixationDuration s) (fixations s) \<Longrightarrow>
   list_all (\<lambda>f. fx_duration f \<ge> fixationDuration s) (fixations (endFixation s p t))"
  by (simp add: endFixation_def Let_def)

lemma seg_inv_endFixation: "seg_inv s \<Longrightarrow> seg_inv (endFixation s p t)"
  unfolding seg_inv_def
  by (simp add: endFixation_thresholds endFixation_fixations)

lemma seg_inv_new: "seg_inv EyeFeatureExtractor_new"
  by (simp add: seg_inv_def EyeFeatureExtractor_new_def)

lemma seg_inv_reset: "seg_inv s \<Longrightarrow> seg_inv (reset s)"
  by (simp add: seg_inv_def reset_def)

lemma seg_inv_flush: "seg_inv s \<Longrightarrow> seg_inv (flush s)"
  by (simp add: flush_def seg_inv_endFixation split: option.splits)

lemma processGaze_inv:
  assumes "seg_inv s"
  shows "\<exists>s'. processGaze s p t = Inr s' \<and> seg_inv s'"
proof (cases "lastGazePoint s")
  case None
  with assms show ?thesis
    by (simp add: processGaze_def seg_inv_def)
next
  case (Some prev)
  obtain cand where cand: "truthy (lastFixationStart s) \<Longrightarrow> lastFixationPoint s = Some cand"
    using assms by (cases "lastFixationPoint s") (auto simp: seg_inv_def)
  show ?thesis
  proof (cases "euclideanDistance prev p > saccadeThreshold s")
    case True
    with Some assms show ?thesis
      by (simp add: processGaze_def seg_inv_def Let_def endFixation_def)
  next
    case far: False
    show ?thesis
    proof (cases "truthy (lastFixationStart s)")
      case False
      with far Some assms show ?thesis
        by (simp add: processGaze_def seg_inv_def Let_def)
    next
      case opn: True
      show ?thesis
      proof (cases "t - num (lastFixationStart s) \<ge> fixationDuration s")
        case False
        with opn far Some assms show ?thesis
          by (simp add: processGaze_def seg_inv_def Let_def)
      next
        case long: True
        show ?thesis
        proof (cases "euclideanDistance cand p \<le> fixationRadius s")
          case True
          with long opn far Some assms cand[OF opn] show ?thesis
            by (simp add: processGaze_def seg_inv_def Let_def ex_half)
        next
          case False
          with long opn far Some assms cand[OF opn] show ?thesis
            by (simp add: processGaze_def seg_inv_def Let_def endFixation_def)
        qed
      qed
    qed
  qed
qed

lemma seg_step_inv:
  assumes "seg_inv s"
  shows "\<exists>s'. seg_step s c = Inr s' \<and> seg_inv s'"
proof (cases c)
  case (ProcessGaze p t)
  then show ?thesis using processGaze_inv[OF assms] by simp
next
  case GetMetrics
  then show ?thesis using seg_inv_flush[OF assms] by (simp add: getMetrics_def)
next
  case Reset
  then show ?thesis using seg_inv_reset[OF assms] by simp
qed

lemma seg_run_inv:
  "seg_inv s \<Longrightarrow> \<exists>s'. seg_run s cs = Inr s' \<and> seg_inv s'"
proof (induction cs arbitrary: s)
  case Nil
  then show ?case by simp
next
  case (Cons c cs)
  from seg_step_inv[OF Cons.prems] obtain s1 where
    s1: "seg_step s c = Inr s1" "seg_inv s1" by blast
  with Cons.IH[OF s1(2)] show ?case by simp
qed

lemma seg_step_thresholds:
  "seg_step s c = Inr s' \<Longrightarrow>
     fixationDuration s' = fixationDuration s \<and> saccadeThreshold s' = saccadeThreshold s
     \<and> fixationRadius s' = fixationRadius s"
  by (cases c)
     (auto simp: processGaze_def getMetrics_def flush_def reset_def Let_def
                 endFixation_thresholds split: option.splits if_splits)

lemma seg_run_thresholds:
  "seg_run s cs = Inr s' \<Longrightarrow>
     fixationDuration s' = fixationDuration s \<and> saccadeThreshold s' = saccadeThreshold s
     \<and> fixationRadius s' = fixationRadius s"
proof (induction cs arbitrary: s)
  case Nil
  then show ?case by simp
next
  case (Cons c cs)
  then show ?case
    by (cases "seg_step s c") (auto dest: seg_step_thresholds)
qed

section \<open>Evaluating the segmenter on concrete streams\<close>

lemmas seg_eval = processGaze_def getMetrics_def flush_def endFixation_def
  EyeFeatureExtractor_new_def euclideanDistance_def Let_def sqrt_gt_iff sqrt_le_iff
  power2_eq_square

lemma dwell_then_jump_run:
  "map_sum id (\<lambda>s. (map fx_duration (fixations s), map sc_duration (saccades s)))
     (seg_run EyeFeatureExtractor_new dwell_then_jump) = Inr ([190], [100])"
  by (simp add: dwell_then_jump_def seg_eval)

section \<open>Claims about the segmenter\<close>

text \<open>
  C5. For every sequence of calls on a fresh segmenter (\<open>processGaze\<close>, and also the
  end-of-stream flush of \<open>getMetrics\<close> and \<open>reset\<close>), the sequence runs without an
  exception, the thresholds keep their defaults 100 and 30, every fixation in the
  fixations list has a duration of at least the duration threshold, and every saccade in
  the saccades list has a distance greater than the saccade threshold. As every prefix
  of a sequence is a sequence, this holds for every event ever appended.
\<close>

theorem duration_invariant:
  "\<exists>s. seg_run EyeFeatureExtractor_new calls = Inr s \<and>
        fixationDuration s = 100 \<and> saccadeThreshold s = 30 \<and>
        (\<forall>f \<in> set (fixations s). fx_duration f \<ge> fixationDuration s) \<and>
        (\<forall>c \<in> set (saccades s). sc_distance c > saccadeThreshold s)"
proof -
  obtain s where s: "seg_run EyeFeatureExtractor_new calls = Inr s" "seg_inv s"
    using seg_run_inv[OF seg_inv_new] by blast
  have "fixationDuration s = 100" "saccadeThreshold s = 30"
    using seg_run_thresholds[OF s(1)] by (simp_all add: EyeFeatureExtractor_new_def)
  with s show ?thesis
    by (simp add: seg_inv_def list_all_iff)
qed

theorem duration_invariant_witness:
  "\<exists>s. seg_run EyeFeatureExtractor_new dwell_then_jump = Inr s \<and>
        map fx_duration (fixations s) = [190] \<and> map sc_duration (saccades s) = [100] \<and>
        list_all (\<lambda>f. fx_duration f \<ge> 100) (fixations s) \<and>
        list_all (\<lambda>c. sc_distance c > 30) (saccades s)"
  using duration_invariant[of dwell_then_jump] dwell_then_jump_run
  by (auto simp: list_all_iff)

text \<open>
  C1 (Scenario B), as the claim states it, fails: the first gaze point has no
  predecessor, so the fixation candidate opens at the second point, at \<open>t0 + 50\<close>.
  At the flush the candidate is 70 ms old, below the threshold of 100, and is discarded.
  With \<open>t0 = 1000\<close> the fixations list after \<open>getMetrics\<close> is empty, where the claim
  expects exactly one fixation of duration 120.
\<close>

theorem scenario_B_counterexample:
  "map_sum id fixations
     (seg_run EyeFeatureExtractor_new (scenario_B 1000 @ [GetMetrics])) = Inr []"
  by (simp add: scenario_B_def seg_eval)

text \<open>
  C1, amended. For every \<open>t0\<close>, the three calls of Scenario B on a fresh segmenter
  record no saccade, and after the flush of \<open>getMetrics\<close> no fixation is recorded;
  for a positive \<open>t0\<close> the candidate open after the three calls started at
  \<open>t0 + 50\<close>, the timestamp of the second point.
\<close>

theorem scenario_B_no_fixation:
  "map_sum id saccades (seg_run EyeFeatureExtractor_new (scenario_B t0)) = Inr [] \<and>
   map_sum id fixations
     (seg_run EyeFeatureExtractor_new (scenario_B t0 @ [GetMetrics])) = Inr [] \<and>
   (0 < t0 \<longrightarrow>
      map_sum id lastFixationStart (seg_run EyeFeatureExtractor_new (scenario_B t0))
        = Inr (Some (t0 + 50)))"
  by (simp add: scenario_B_def seg_eval)

theorem scenario_B_no_fixation_witness:
  "(0::real) < 1000 \<and>
   map_sum id lastFixationStart (seg_run EyeFeatureExtractor_new (scenario_B 1000))
     = Inr (Some 1050)"
  using scenario_B_no_fixation[of 1000] by simp

section \<open>Claims about feature extraction and prediction\<close>

lemma length_extractFeatures: "length (extractFeatures lms) = 10"
  by (simp add: extractFeatures_def split: option.splits)

text \<open>
  C10. Feature extraction is a total function with a result of length 10 for every
  landmark input. If any of the landmarks 33, 133, 362, 263, 468, 473 is absent the
  result is the all-zero vector; if all six are present it is the vector of the
  iris-to-outer-corner offsets of each eye, the two eye widths (distance from outer to
  inner corner) and the raw iris centres.
\<close>

theorem extractFeatures_total:
  "length (extractFeatures lms) = 10 \<and>
   (lms 33 = None \<or> lms 133 = None \<or> lms 362 = None \<or> lms 263 = None \<or>
    lms 468 = None \<or> lms 473 = None \<longrightarrow>
      extractFeatures lms = [0, 0, 0, 0, 0, 0, 0, 0, 0, 0]) \<and>
   (lms 33 = Some lo \<and> lms 133 = Some li \<and> lms 362 = Some ro \<and> lms 263 = Some ri \<and>
    lms 468 = Some lc \<and> lms 473 = Some rc \<longrightarrow>
      extractFeatures lms =
        [lm_x lc - lm_x lo, lm_y lc - lm_y lo,
         lm_x rc - lm_x ro, lm_y rc - lm_y ro,
         euclideanDistance (lm_x lo, lm_y lo) (lm_x li, lm_y li),
         euclideanDistance (lm_x ro, lm_y ro) (lm_x ri, lm_y ri),
         lm_x lc, lm_y lc, lm_x rc, lm_y rc])"
  by (auto simp: extractFeatures_def eval_nat_numeral split: option.splits)

theorem extractFeatures_total_witness:
  "extractFeatures (eye_landmarks(263 := None)) = [0, 0, 0, 0, 0, 0, 0, 0, 0, 0] \<and>
   extractFeatures eye_landmarks = [2, 2, -2, 3, 5, 5, 3, 4, 8, 5]"
  using extractFeatures_total[of "eye_landmarks(263 := None)"]
    extractFeatures_total[of eye_landmarks "\<lparr>lm_x = 1, lm_y = 2, lm_z = 0\<rparr>"
       "\<lparr>lm_x = 4, lm_y = 6, lm_z = 0\<rparr>" "\<lparr>lm_x = 10, lm_y = 2, lm_z = 0\<rparr>"
       "\<lparr>lm_x = 7, lm_y = 6, lm_z = 0\<rparr>" "\<lparr>lm_x = 3, lm_y = 4, lm_z = 0\<rparr>"
       "\<lparr>lm_x = 8, lm_y = 5, lm_z = 0\<rparr>"]
  by (simp add: eye_landmarks_def euclideanDistance_def)

text \<open>
  C6. When \<open>finishCalibration\<close> runs on a calibrator with no collected sample, it
  returns normally, the calibrator is no longer calibrating, the model stays absent, and
  \<open>predictGaze\<close> (which does not change the calibrator) returns \<open>null\<close> for every
  landmark input.
\<close>

theorem finish_without_samples:
  "gazeData c = [] \<Longrightarrow>
     model (finishCalibration c) = None \<and> \<not> isCalibrating (finishCalibration c) \<and>
     predictGaze (finishCalibration c) lms = None"
  by (simp add: finishCalibration_def trainModel_def predictGaze_def)

theorem finish_without_samples_witness:
  "gazeData (startCalibration (Calibrator_new 360 640)) = [] \<and>
   model (finishCalibration (startCalibration (Calibrator_new 360 640))) = None \<and>
   predictGaze (finishCalibration (startCalibration (Calibrator_new 360 640))) eye_landmarks
     = None"
  using finish_without_samples[of "startCalibration (Calibrator_new 360 640)" eye_landmarks]
  by (simp add: startCalibration_def Calibrator_new_def)

section \<open>The calibration grid\<close>

lemma upt5: "[0..<5] = [0, 1, 2, 3, 4]"
  by (simp add: upt_rec)

lemma targets_list:
  "generateCalibrationTargets w h =
     [(1 * (w / 6), 1 * (h / 6)), (2 * (w / 6), 1 * (h / 6)), (3 * (w / 6), 1 * (h / 6)),
      (4 * (w / 6), 1 * (h / 6)), (5 * (w / 6), 1 * (h / 6)),
      (1 * (w / 6), 2 * (h / 6)), (2 * (w / 6), 2 * (h / 6)), (3 * (w / 6), 2 * (h / 6)),
      (4 * (w / 6), 2 * (h / 6)), (5 * (w / 6), 2 * (h / 6)),
      (1 * (w / 6), 3 * (h / 6)), (2 * (w / 6), 3 * (h / 6)), (3 * (w / 6), 3 * (h / 6)),
      (4 * (w / 6), 3 * (h / 6)), (5 * (w / 6), 3 * (h / 6)),
      (1 * (w / 6), 4 * (h / 6)), (2 * (w / 6), 4 * (h / 6)), (3 * (w / 6), 4 * (h / 6)),
      (4 * (w / 6), 4 * (h / 6)), (5 * (w / 6), 4 * (h / 6)),
      (1 * (w / 6), 5 * (h / 6)), (2 * (w / 6), 5 * (h / 6)), (3 * (w / 6), 5 * (h / 6)),
      (4 * (w / 6), 5 * (h / 6)), (5 * (w / 6), 5 * (h / 6))]"
  by (simp add: generateCalibrationTargets_def Let_def upt5)

lemma length_targets: "length (generateCalibrationTargets w h) = 25"
  by (simp add: targets_list)

lemma below5: "(n::nat) < 5 \<Longrightarrow> n = 0 \<or> n = 1 \<or> n = 2 \<or> n = 3 \<or> n = 4"
  by arith

lemma targets_nth:
  assumes "r < 5" "c < 5"
  shows "generateCalibrationTargets w h ! (r * 5 + c)
           = ((real c + 1) * w / 6, (real r + 1) * h / 6)"
  using below5[OF assms(1)] below5[OF assms(2)]
  by (auto simp: targets_list)

lemma targets_inside:
  assumes "0 < w" "0 < h" "p \<in> set (generateCalibrationTargets w h)"
  shows "0 < fst p \<and> fst p < w \<and> 0 < snd p \<and> snd p < h"
  using assms by (auto simp: targets_list)

text \<open>
  C9, as the claim states it for any screen dimensions, fails where a dimension is not
  positive: for a window of size 0 by 0 every target is \<open>(0, 0)\<close>, and no point lies
  strictly inside the empty rectangle \<open>(0,0) \<times> (0,0)\<close>.
\<close>

theorem calibration_grid_counterexample:
  "calibrationTargets (Calibrator_new 0 0) ! 0 = (0, 0) \<and>
   \<not> 0 < fst (calibrationTargets (Calibrator_new 0 0) ! 0)"
  by (simp add: Calibrator_new_def targets_list)

text \<open>
  C9, amended. For all screen dimensions the grid of a new calibrator has 25 points, and
  the point of row \<open>r\<close> and column \<open>c\<close> (at index \<open>5 r + c\<close>) is
  \<open>((c+1) W / 6, (r+1) H / 6)\<close>; for positive screen dimensions every point lies
  strictly inside \<open>(0,W) \<times> (0,H)\<close>.
\<close>

theorem calibration_grid:
  "length (calibrationTargets (Calibrator_new w h)) = 25 \<and>
   (\<forall>r < 5. \<forall>c < 5. calibrationTargets (Calibrator_new w h) ! (r * 5 + c)
        = ((real c + 1) * w / 6, (real r + 1) * h / 6)) \<and>
   (0 < w \<and> 0 < h \<longrightarrow>
      (\<forall>p \<in> set (calibrationTargets (Calibrator_new w h)).
          0 < fst p \<and> fst p < w \<and> 0 < snd p \<and> snd p < h))"
  using targets_inside[of w h]
  by (simp add: Calibrator_new_def length_targets targets_nth)

theorem calibration_grid_witness:
  "(0::real) < 360 \<and> (0::real) < 640 \<and>
   length (calibrationTargets (Calibrator_new 360 640)) = 25 \<and>
   calibrationTargets (Calibrator_new 360 640) ! (2 * 5 + 4) = (300, 320) \<and>
   list_all (\<lambda>p. 0 < fst p \<and> fst p < 360 \<and> 0 < snd p \<and> snd p < 640)
     (calibrationTargets (Calibrator_new 360 640))"
proof -
  note g = calibration_grid[of 360 640]
  have "calibrationTargets (Calibrator_new 360 640) ! (2 * 5 + 4)
          = ((real 4 + 1) * 360 / 6, (real 2 + 1) * 640 / 6)"
    using g[THEN conjunct2, THEN conjunct1, rule_format, of 2 4] by simp
  moreover have "list_all (\<lambda>p. 0 < fst p \<and> fst p < 360 \<and> 0 < snd p \<and> snd p < 640)
     (calibrationTargets (Calibrator_new 360 640))"
    using g[THEN conjunct2, THEN conjunct2] by (simp add: list_all_iff)
  ultimately show ?thesis
    using g[THEN conjunct1] by simp
qed

section \<open>Prediction clamping\<close>

text \<open>
  C7, as the claim states it, fails for a calibrator whose screen dimensions are
  negative: the constructor stores the dimensions as given, and
  \<open>max 0 (min W x)\<close> is 0 when \<open>W\<close> is negative. The calibrator built for a window
  of \<open>-10\<close> by \<open>-20\<close> and trained on one sample has a model, and its prediction
  \<open>(0, 0)\<close> is not in \<open>[0, -10] \<times> [0, -20]\<close>.
\<close>

theorem predictGaze_clamped_counterexample:
  "model negative_screen_calibrator = Some \<lparr>offsetX = - 5 / 3, offsetY = - 10 / 3\<rparr> \<and>
   screenWidth negative_screen_calibrator = - 10 \<and>
   screenHeight negative_screen_calibrator = - 20 \<and>
   predictGaze negative_screen_calibrator eye_landmarks = Some (0, 0) \<and>
   \<not> fst (0::real, 0::real) \<le> screenWidth negative_screen_calibrator \<and>
   \<not> snd (0::real, 0::real) \<le> screenHeight negative_screen_calibrator"
  by (simp add: negative_screen_calibrator_def finishCalibration_def trainModel_def
        addGazeSample_def getCurrentCalibrationPoint_def startCalibration_def
        Calibrator_new_def targets_list predictGaze_def extractFeatures_def
        eye_landmarks_def Let_def)

text \<open>
  C7, amended. For a calibrator with a model and with screen dimensions that are not
  negative, \<open>predictGaze\<close> returns a point for every landmark input, and the point
  lies in \<open>[0, screenWidth] \<times> [0, screenHeight]\<close>.
\<close>

theorem predictGaze_clamped:
  "model c = Some m \<Longrightarrow> 0 \<le> screenWidth c \<Longrightarrow> 0 \<le> screenHeight c \<Longrightarrow>
     \<exists>p. predictGaze c lms = Some p \<and>
         0 \<le> fst p \<and> fst p \<le> screenWidth c \<and> 0 \<le> snd p \<and> snd p \<le> screenHeight c"
  by (simp add: predictGaze_def Let_def)

theorem predictGaze_clamped_witness:
  "model trained_calibrator = Some \<lparr>offsetX = 500, offsetY = - 500\<rparr> \<and>
   (0::real) \<le> screenWidth trained_calibrator \<and> 0 \<le> screenHeight trained_calibrator \<and>
   predictGaze trained_calibrator eye_landmarks = Some (360, 0)"
proof -
  have m: "model trained_calibrator = Some \<lparr>offsetX = 500, offsetY = - 500\<rparr>"
    and w: "0 \<le> screenWidth trained_calibrator" and h: "0 \<le> screenHeight trained_calibrator"
    by (simp_all add: trained_calibrator_def Calibrator_new_def)
  have "predictGaze trained_calibrator eye_landmarks = Some (360, 0)"
    using predictGaze_clamped[OF m w h, of eye_landmarks]
    by (simp add: predictGaze_def trained_calibrator_def Calibrator_new_def
          extractFeatures_def eye_landmarks_def Let_def)
  with m w h show ?thesis by simp
qed

section \<open>Counting the samples of a calibration run\<close>

lemma div30_below: "n < 750 \<Longrightarrow> n div 30 < (25::nat)"
  by (rule less_mult_imp_div_less) simp

lemma suc_same_target:
  "n mod 30 \<noteq> 29 \<Longrightarrow>
     Suc n div 30 = n div 30 \<and> Suc n mod 30 = Suc (n mod 30) \<and> \<not> 30 \<le> Suc (n mod 30)"
  by (simp add: mod_Suc div_Suc not_le less_Suc_eq_le[symmetric])

lemma suc_below: "n < 750 \<Longrightarrow> n mod 30 \<noteq> 29 \<Longrightarrow> Suc n < 750"
proof -
  assume "n < 750" "n mod 30 \<noteq> 29"
  then have "n \<noteq> 749" by auto
  with \<open>n < 750\<close> show ?thesis by simp
qed

lemma suc_next_target:
  "n mod 30 = 29 \<Longrightarrow>
     Suc n div 30 = Suc (n div 30) \<and> Suc n mod 30 = 0 \<and> 30 \<le> Suc (n mod 30)"
  by (simp add: mod_Suc div_Suc)

lemma suc_not_last: "n mod 30 = 29 \<Longrightarrow> Suc n < 750 \<Longrightarrow> \<not> 25 \<le> Suc (n div 30)"
proof -
  assume m: "n mod 30 = 29" and "Suc n < 750"
  then have "Suc n div 30 < 25" by (intro less_mult_imp_div_less) simp
  with m show ?thesis by (simp add: div_Suc mod_Suc)
qed

lemma suc_last: "\<not> Suc n < 750 \<Longrightarrow> n < 750 \<Longrightarrow> 25 \<le> Suc (n div 30) \<and> Suc n = 750"
proof -
  assume "\<not> Suc n < 750" "n < 750"
  then have "n = 749" by simp
  then show ?thesis by simp
qed

lemma trainModel_keeps:
  "gazeData (trainModel d) = gazeData d \<and> isCalibrating (trainModel d) = isCalibrating d
   \<and> calibrationTargets (trainModel d) = calibrationTargets d
   \<and> samplesPerPoint (trainModel d) = samplesPerPoint d
   \<and> screenWidth (trainModel d) = screenWidth d
   \<and> screenHeight (trainModel d) = screenHeight d"
  by (simp add: trainModel_def Let_def)

lemma run_inv_start: "run_inv 0 (startCalibration (Calibrator_new w h))"
  by (simp add: run_inv_def startCalibration_def Calibrator_new_def length_targets)

lemma run_inv_step:
  assumes "run_inv n c"
  shows "run_inv (Suc n) (addGazeSample c lms g)"
proof (cases "n < 750")
  case False
  with assms show ?thesis
    by (simp add: run_inv_def addGazeSample_def)
next
  case True
  with assms have st: "isCalibrating c" "currentCalibrationIndex c = n div 30"
    "currentSamples c = n mod 30" "length (gazeData c) = n"
    "length (calibrationTargets c) = 25" "samplesPerPoint c = 30"
    and old: "\<forall>k < n. target (gazeData c ! k) = calibrationTargets c ! (k div 30)"
    by (simp_all add: run_inv_def)
  have cur: "getCurrentCalibrationPoint c = Some (calibrationTargets c ! (n div 30))"
    using st div30_below[OF True] by (simp add: getCurrentCalibrationPoint_def)
  have tg: "\<forall>k < Suc n. target ((gazeData c @ [\<lparr>features = extractFeatures lms, gaze = g,
                target = calibrationTargets c ! (n div 30)\<rparr>]) ! k)
              = calibrationTargets c ! (k div 30)"
    using st(4) old by (auto simp: nth_append less_Suc_eq)
  show ?thesis
  proof (cases "n mod 30 = 29")
    case False
    show ?thesis
      using st cur tg suc_same_target[OF False] suc_below[OF True False]
      by (simp add: run_inv_def addGazeSample_def Let_def)
  next
    case last: True
    show ?thesis
    proof (cases "Suc n < 750")
      case True
      with st cur tg suc_next_target[OF last] suc_not_last[OF last True] show ?thesis
        by (simp add: run_inv_def addGazeSample_def Let_def)
    next
      case False
      with st cur tg suc_next_target[OF last] suc_last[OF False \<open>n < 750\<close>] show ?thesis
        by (simp add: run_inv_def addGazeSample_def Let_def finishCalibration_def
                      trainModel_keeps)
    qed
  qed
qed

lemma run_inv_samples:
  "run_inv n c \<Longrightarrow> run_inv (n + length xs) (addGazeSamples c xs)"
proof (induction xs arbitrary: n c)
  case Nil
  then show ?case by simp
next
  case (Cons x xs)
  from Cons.IH[OF run_inv_step[OF Cons.prems, of "fst x" "snd x"]]
  show ?case by simp
qed

lemma run_inv_progress:
  assumes "run_inv n c"
  shows "getCalibrationProgress c = (if n < 750 then real n / 750 else 1)"
proof (cases "n < 750")
  case True
  with assms have "currentCalibrationIndex c * 30 + currentSamples c = n"
    by (simp add: run_inv_def)
  with True assms show ?thesis
    by (simp add: getCalibrationProgress_def run_inv_def Let_def)
next
  case False
  with assms show ?thesis
    by (simp add: getCalibrationProgress_def run_inv_def)
qed

section \<open>Calibration progress\<close>

lemma progress_step:
  assumes "run_inv n c"
  shows "getCalibrationProgress c \<le> getCalibrationProgress (addGazeSample c lms g)"
  using run_inv_progress[OF assms] run_inv_progress[OF run_inv_step[OF assms, of lms g]]
  by (simp add: divide_le_eq)

lemma run_inv_calibration_run: "run_inv (length xs) (calibration_run w h xs)"
  unfolding calibration_run_def using run_inv_samples[OF run_inv_start] by simp

text \<open>
  C8. In a calibration run on a new calibrator (\<open>startCalibration\<close> followed by any
  successive \<open>addGazeSample\<close> calls) the progress is
  \<open>(targetIndex * samplesPerPoint + samplesAtCurrentTarget) / (numTargets * samplesPerPoint)\<close>
  while calibrating and 1 otherwise, with 25 targets and 30 samples per target; it lies
  in \<open>[0,1]\<close>; one more \<open>addGazeSample\<close> call never decreases it; and it is 1
  exactly when the calibrator is no longer calibrating, which is exactly when 750 or
  more samples were fed, the 750th having run \<open>finishCalibration\<close>.
\<close>

theorem progress_monotone:
  "getCalibrationProgress (calibration_run w h xs)
     = (if isCalibrating (calibration_run w h xs)
        then real (currentCalibrationIndex (calibration_run w h xs)
                     * samplesPerPoint (calibration_run w h xs)
                   + currentSamples (calibration_run w h xs))
             / real (length (calibrationTargets (calibration_run w h xs))
                     * samplesPerPoint (calibration_run w h xs))
        else 1) \<and>
   length (calibrationTargets (calibration_run w h xs)) = 25 \<and>
   samplesPerPoint (calibration_run w h xs) = 30 \<and>
   0 \<le> getCalibrationProgress (calibration_run w h xs) \<and>
   getCalibrationProgress (calibration_run w h xs) \<le> 1 \<and>
   getCalibrationProgress (calibration_run w h xs)
     \<le> getCalibrationProgress (addGazeSample (calibration_run w h xs) lms g) \<and>
   (getCalibrationProgress (calibration_run w h xs) = 1
      \<longleftrightarrow> \<not> isCalibrating (calibration_run w h xs)) \<and>
   (isCalibrating (calibration_run w h xs) \<longleftrightarrow> length xs < 750)"
proof -
  note inv = run_inv_calibration_run[of xs w h]
  note p = run_inv_progress[OF inv]
  have cal: "isCalibrating (calibration_run w h xs) \<longleftrightarrow> length xs < 750"
    using inv by (simp add: run_inv_def split: if_splits)
  have "getCalibrationProgress (calibration_run w h xs)
     = (if isCalibrating (calibration_run w h xs)
        then real (currentCalibrationIndex (calibration_run w h xs)
                     * samplesPerPoint (calibration_run w h xs)
                   + currentSamples (calibration_run w h xs))
             / real (length (calibrationTargets (calibration_run w h xs))
                     * samplesPerPoint (calibration_run w h xs))
        else 1)"
    by (simp add: getCalibrationProgress_def Let_def)
  moreover have "length (calibrationTargets (calibration_run w h xs)) = 25"
    "samplesPerPoint (calibration_run w h xs) = 30"
    using inv by (simp_all add: run_inv_def)
  moreover have "0 \<le> getCalibrationProgress (calibration_run w h xs)"
    "getCalibrationProgress (calibration_run w h xs) \<le> 1"
    "getCalibrationProgress (calibration_run w h xs) = 1
      \<longleftrightarrow> \<not> isCalibrating (calibration_run w h xs)"
    using p cal by (simp_all)
  ultimately show ?thesis
    using progress_step[OF inv, of lms g] cal by simp
qed

theorem progress_monotone_witness:
  "isCalibrating (calibration_run 360 640 (replicate 45 (eye_landmarks, (100, 200)))) \<and>
   getCalibrationProgress (calibration_run 360 640 (replicate 45 (eye_landmarks, (100, 200)))) \<noteq> 1 \<and>
   \<not> isCalibrating (calibration_run 360 640 (replicate 750 (eye_landmarks, (100, 200)))) \<and>
   getCalibrationProgress (calibration_run 360 640 (replicate 750 (eye_landmarks, (100, 200)))) = 1"
proof -
  let ?a = "calibration_run 360 640 (replicate 45 (eye_landmarks, (100, 200)))"
  let ?b = "calibration_run 360 640 (replicate 750 (eye_landmarks, (100, 200)))"
  note a = progress_monotone[of 360 640 "replicate 45 (eye_landmarks, (100, 200))"]
  note b = progress_monotone[of 360 640 "replicate 750 (eye_landmarks, (100, 200))"]
  have "isCalibrating ?a \<longleftrightarrow> length (replicate 45 (eye_landmarks, (100::real, 200::real))) < 750"
    using a by blast
  moreover have "getCalibrationProgress ?a = 1 \<longleftrightarrow> \<not> isCalibrating ?a"
    using a by blast
  moreover have "isCalibrating ?b \<longleftrightarrow> length (replicate 750 (eye_landmarks, (100::real, 200::real))) < 750"
    using b by blast
  moreover have "getCalibrationProgress ?b = 1 \<longleftrightarrow> \<not> isCalibrating ?b"
    using b by blast
  ultimately show ?thesis by simp
qed

section \<open>The fit and Scenario A\<close>

lemma foldl_add:
  "foldl (\<lambda>acc d. acc + f d) a ds = a + sum_list (map f ds)" for a :: real
  by (induction ds arbitrary: a) simp_all

lemma model_trainModel:
  "model (trainModel c) =
     (if gazeData c = [] then None
      else Some \<lparr>offsetX = (\<Sum>d\<leftarrow>gazeData c. fst (target d) - fst (gaze d)) / real (length (gazeData c)),
                 offsetY = (\<Sum>d\<leftarrow>gazeData c. snd (target d) - snd (gaze d)) / real (length (gazeData c))\<rparr>)"
  by (simp add: trainModel_def Let_def foldl_add)

lemma shifted_sum:
  "list_all shifted ds \<Longrightarrow>
     (\<Sum>d\<leftarrow>ds. fst (target d) - fst (gaze d)) = 5 * real (length ds) \<and>
     (\<Sum>d\<leftarrow>ds. snd (target d) - snd (gaze d)) = 5 * real (length ds)"
  by (induction ds) (simp_all add: shifted_def algebra_simps)

lemma train_shifted:
  "gazeData c \<noteq> [] \<Longrightarrow> list_all shifted (gazeData c) \<Longrightarrow>
     model (trainModel c) = Some \<lparr>offsetX = 5, offsetY = 5\<rparr>"
  by (simp add: model_trainModel shifted_sum)

lemma addGazeSample_dims:
  "screenWidth (addGazeSample c lms g) = screenWidth c \<and>
   screenHeight (addGazeSample c lms g) = screenHeight c \<and>
   calibrationTargets (addGazeSample c lms g) = calibrationTargets c"
  by (simp add: addGazeSample_def Let_def finishCalibration_def trainModel_keeps
           split: option.splits)

lemma addGazeSample_data:
  assumes "run_inv n c" "n < 750"
  shows "gazeData (addGazeSample c lms g) =
           gazeData c @ [\<lparr>features = extractFeatures lms, gaze = g,
                           target = calibrationTargets c ! (n div 30)\<rparr>] \<and>
         model (addGazeSample c lms g) =
           (if Suc n = 750 then model (trainModel (addGazeSample c lms g)) else model c)"
proof -
  from assms have st: "isCalibrating c" "currentCalibrationIndex c = n div 30"
    "currentSamples c = n mod 30" "length (gazeData c) = n"
    "length (calibrationTargets c) = 25" "samplesPerPoint c = 30"
    by (simp_all add: run_inv_def)
  have cur: "getCurrentCalibrationPoint c = Some (calibrationTargets c ! (n div 30))"
    using st div30_below[OF assms(2)] by (simp add: getCurrentCalibrationPoint_def)
  show ?thesis
  proof (cases "n mod 30 = 29")
    case False
    show ?thesis
      using st cur suc_same_target[OF False] suc_below[OF assms(2) False]
      by (simp add: addGazeSample_def Let_def)
  next
    case last: True
    show ?thesis
    proof (cases "Suc n < 750")
      case True
      with st cur suc_next_target[OF last] suc_not_last[OF last True] show ?thesis
        by (simp add: addGazeSample_def Let_def)
    next
      case False
      with st cur suc_next_target[OF last] suc_last[OF False assms(2)] show ?thesis
        by (simp add: addGazeSample_def Let_def finishCalibration_def trainModel_keeps
                      model_trainModel)
    qed
  qed
qed

lemma shift_inv_start: "shift_inv 0 (startCalibration (Calibrator_new w h))"
  by (simp add: shift_inv_def startCalibration_def Calibrator_new_def)

lemma shift_inv_step:
  assumes r: "run_inv n c" and s: "shift_inv n c"
  shows "shift_inv (Suc n) (addGazeSample c lms (observed_A c))"
proof (cases "n < 750")
  case False
  with r s show ?thesis
    by (simp add: run_inv_def shift_inv_def addGazeSample_def)
next
  case True
  from r True have cur: "getCurrentCalibrationPoint c = Some (calibrationTargets c ! (n div 30))"
    using div30_below[OF True] by (simp add: getCurrentCalibrationPoint_def run_inv_def)
  note d = addGazeSample_data[OF r True, of lms "observed_A c"]
  have all: "list_all shifted (gazeData (addGazeSample c lms (observed_A c)))"
    using s d cur by (simp add: shift_inv_def shifted_def observed_A_def)
  have "gazeData (addGazeSample c lms (observed_A c)) \<noteq> []"
    using d by simp
  from train_shifted[OF this all] d all True show ?thesis
    by (simp add: shift_inv_def)
qed

lemma scenario_A_inv:
  "run_inv n c \<Longrightarrow> shift_inv n c \<Longrightarrow>
     run_inv (n + length ls) (scenario_A c ls) \<and> shift_inv (n + length ls) (scenario_A c ls)
     \<and> screenWidth (scenario_A c ls) = screenWidth c
     \<and> screenHeight (scenario_A c ls) = screenHeight c
     \<and> calibrationTargets (scenario_A c ls) = calibrationTargets c"
proof (induction ls arbitrary: n c)
  case Nil
  then show ?case by simp
next
  case (Cons l ls)
  from Cons.IH[OF run_inv_step[OF Cons.prems(1)] shift_inv_step[OF Cons.prems]]
  show ?case by (simp add: addGazeSample_dims)
qed

text \<open>
  C4. The fit stores the mean of \<open>target - observedGaze\<close> per axis over all samples.
  In Scenario A (a run of 750 frames on a new calibrator, each reporting the current
  target minus \<open>(5,5)\<close>: 30 samples for each of the 25 targets in order) the run ends
  the calibration, the fitted offset is exactly \<open>(5,5)\<close>, and \<open>predictGaze\<close> on any
  landmark input returns the base (positions 6 and 7 of its feature vector) plus
  \<open>(5,5)\<close>, clamped by \<open>max 0 (min W _)\<close> and \<open>max 0 (min H _)\<close>.
\<close>

theorem mean_offset_fit:
  "(gazeData c \<noteq> [] \<longrightarrow>
      model (trainModel c) =
        Some \<lparr>offsetX = (\<Sum>d\<leftarrow>gazeData c. fst (target d) - fst (gaze d))
                          / real (length (gazeData c)),
              offsetY = (\<Sum>d\<leftarrow>gazeData c. snd (target d) - snd (gaze d))
                          / real (length (gazeData c))\<rparr>) \<and>
   (length ls = 750 \<longrightarrow>
      \<not> isCalibrating (scenario_A (startCalibration (Calibrator_new w h)) ls) \<and>
      length (gazeData (scenario_A (startCalibration (Calibrator_new w h)) ls)) = 750 \<and>
      (\<forall>k < 750.
          target (gazeData (scenario_A (startCalibration (Calibrator_new w h)) ls) ! k)
            = generateCalibrationTargets w h ! (k div 30) \<and>
          gaze (gazeData (scenario_A (startCalibration (Calibrator_new w h)) ls) ! k)
            = (fst (generateCalibrationTargets w h ! (k div 30)) - 5,
               snd (generateCalibrationTargets w h ! (k div 30)) - 5)) \<and>
      model (scenario_A (startCalibration (Calibrator_new w h)) ls)
        = Some \<lparr>offsetX = 5, offsetY = 5\<rparr> \<and>
      predictGaze (scenario_A (startCalibration (Calibrator_new w h)) ls) lms
        = Some (max 0 (min w (extractFeatures lms ! 6 + 5)),
                max 0 (min h (extractFeatures lms ! 7 + 5))))"
proof -
  let ?c = "scenario_A (startCalibration (Calibrator_new w h)) ls"
  have fit: "gazeData c \<noteq> [] \<longrightarrow>
      model (trainModel c) =
        Some \<lparr>offsetX = (\<Sum>d\<leftarrow>gazeData c. fst (target d) - fst (gaze d))
                          / real (length (gazeData c)),
              offsetY = (\<Sum>d\<leftarrow>gazeData c. snd (target d) - snd (gaze d))
                          / real (length (gazeData c))\<rparr>"
    by (simp add: model_trainModel)
  have run: "length ls = 750 \<Longrightarrow>
      \<not> isCalibrating ?c \<and> length (gazeData ?c) = 750 \<and>
      (\<forall>k < 750. target (gazeData ?c ! k) = generateCalibrationTargets w h ! (k div 30) \<and>
          gaze (gazeData ?c ! k)
            = (fst (generateCalibrationTargets w h ! (k div 30)) - 5,
               snd (generateCalibrationTargets w h ! (k div 30)) - 5)) \<and>
      model ?c = Some \<lparr>offsetX = 5, offsetY = 5\<rparr> \<and>
      predictGaze ?c lms
        = Some (max 0 (min w (extractFeatures lms ! 6 + 5)),
                max 0 (min h (extractFeatures lms ! 7 + 5)))"
  proof -
    assume len: "length ls = 750"
    let ?s = "startCalibration (Calibrator_new w h)"
    have "run_inv (0 + length ls) ?c \<and> shift_inv (0 + length ls) ?c
       \<and> screenWidth ?c = screenWidth ?s \<and> screenHeight ?c = screenHeight ?s
       \<and> calibrationTargets ?c = calibrationTargets ?s"
      by (rule scenario_A_inv[OF run_inv_start shift_inv_start])
    with len
    have r: "run_inv 750 ?c" and s: "shift_inv 750 ?c"
      and dims: "screenWidth ?c = w" "screenHeight ?c = h"
                "calibrationTargets ?c = generateCalibrationTargets w h"
      by (simp_all add: startCalibration_def Calibrator_new_def)
    from r have a: "\<not> isCalibrating ?c" "length (gazeData ?c) = 750"
      "\<forall>k < 750. target (gazeData ?c ! k) = calibrationTargets ?c ! (k div 30)"
      by (simp_all add: run_inv_def)
    from s have m: "model ?c = Some \<lparr>offsetX = 5, offsetY = 5\<rparr>"
      and sh: "list_all shifted (gazeData ?c)"
      by (simp_all add: shift_inv_def)
    have g: "\<forall>k < 750. gaze (gazeData ?c ! k)
            = (fst (target (gazeData ?c ! k)) - 5, snd (target (gazeData ?c ! k)) - 5)"
      using sh a(2) by (simp add: list_all_length shifted_def)
    have "predictGaze ?c lms
        = Some (max 0 (min w (extractFeatures lms ! 6 + 5)),
                max 0 (min h (extractFeatures lms ! 7 + 5)))"
      using m dims by (simp add: predictGaze_def Let_def)
    with a m g dims show ?thesis by simp
  qed
  from fit run show ?thesis by blast
qed

theorem mean_offset_fit_witness:
  "gazeData (trained_calibrator\<lparr>gazeData := [\<lparr>features = [], gaze = (1, 2), target = (4, 8)\<rparr>,
        \<lparr>features = [], gaze = (3, 3), target = (4, 5)\<rparr>]\<rparr>) \<noteq> [] \<and>
   model (trainModel (trained_calibrator\<lparr>gazeData := [\<lparr>features = [], gaze = (1, 2), target = (4, 8)\<rparr>,
        \<lparr>features = [], gaze = (3, 3), target = (4, 5)\<rparr>]\<rparr>)) = Some \<lparr>offsetX = 2, offsetY = 4\<rparr> \<and>
   length (replicate 750 eye_landmarks) = 750 \<and>
   model (scenario_A (startCalibration (Calibrator_new 360 640)) (replicate 750 eye_landmarks))
        = Some \<lparr>offsetX = 5, offsetY = 5\<rparr> \<and>
   predictGaze (scenario_A (startCalibration (Calibrator_new 360 640)) (replicate 750 eye_landmarks))
        eye_landmarks = Some (8, 9)"
  using mean_offset_fit[of "trained_calibrator\<lparr>gazeData := [\<lparr>features = [], gaze = (1, 2), target = (4, 8)\<rparr>,
        \<lparr>features = [], gaze = (3, 3), target = (4, 5)\<rparr>]\<rparr>" "replicate 750 eye_landmarks" 360 640 eye_landmarks]
  by (simp add: extractFeatures_def eye_landmarks_def)

section \<open>The pipeline: evaluation and invariant\<close>

lemmas et_eval = processLandmarks_def rawGazePoint_def calibration_step_def predictedGaze_def
  frame_output_def addGazeSample_def getCurrentCalibrationPoint_def getCalibrationProgress_def
  EyeTracker_new_def Calibrator_new_def et_startCalibration_def startCalibration_def reset_def
  targets_list extractFeatures_def iris_landmarks_def aggregate_def

lemma dwell_frames_run:
  "map_sum id (map (map_option (\<lambda>out. (fixationCount (out_features out),
                                         gazeDuration (out_features out)))) \<circ> fst)
     (et_run (EyeTracker_new 360 640) dwell_frames)
   = Inr [Some (0, 0), Some (0, 100), Some (0, 300)]"
  by (simp add: dwell_frames_def et_eval seg_eval)

lemma processGaze_no_candidate:
  assumes "fixations s = []" "\<not> truthy (lastFixationStart s)"
  shows "\<exists>s'. processGaze s p ts = Inr s' \<and> fixations s' = [] \<and>
           (\<not> truthy (lastFixationStart s') \<or> lastFixationStart s' = Some ts) \<and>
           lastGazeTimestamp s' = Some ts \<and> lastGazePoint s' = Some p \<and>
           fixationDuration s' = fixationDuration s \<and>
           gazeHistory s' = gazeHistory s @ [\<lparr>gh_point = p, gh_timestamp = ts\<rparr>]"
proof (cases "lastGazePoint s")
  case None
  with assms show ?thesis by (simp add: processGaze_def)
next
  case (Some prev)
  show ?thesis
  proof (cases "euclideanDistance prev p > saccadeThreshold s")
    case True
    with Some assms show ?thesis by (simp add: processGaze_def Let_def)
  next
    case False
    with Some assms show ?thesis by (simp add: processGaze_def Let_def)
  qed
qed

lemma flush_discards:
  assumes "fixations s = []" "\<not> truthy (lastFixationStart s) \<or> lastFixationStart s = Some ts"
    "lastGazeTimestamp s = Some ts" "lastGazePoint s = Some p" "0 < fixationDuration s"
  shows "fixations (flush s) = [] \<and> \<not> truthy (lastFixationStart (flush s)) \<and>
         fixationDuration (flush s) = fixationDuration s \<and>
         gazeHistory (flush s) = gazeHistory s"
proof (cases "truthy (lastFixationStart s)")
  case False
  with assms show ?thesis by (simp add: flush_def)
next
  case True
  with assms have "lastFixationStart s = Some ts" "ts \<noteq> 0" by auto
  with assms show ?thesis by (simp add: flush_def endFixation_def Let_def)
qed

lemma aggregate_no_fixation:
  "fixations s = [] \<Longrightarrow>
     fixationCount (aggregate s) = 0 \<and> dwellTime (aggregate s) = 0 \<and>
     refixationRatio (aggregate s) = 0"
  by (simp add: aggregate_def Let_def)

lemma calibration_step_keeps:
  "featureExtractor (calibration_step t lms raw) = featureExtractor t \<and>
   calibrator (calibration_step t lms raw) =
     (if et_isCalibrating t then addGazeSample (calibrator t) lms raw else calibrator t)"
  by (simp add: calibration_step_def Let_def)

lemma predictedGaze_some:
  "\<exists>g. predictedGaze t lms raw = Some g \<and>
       (model (calibrator t) = None \<longrightarrow> g = raw) \<and>
       (model (calibrator t) \<noteq> None \<longrightarrow> predictGaze (calibrator t) lms = Some g)"
  by (cases "model (calibrator t)") (simp_all add: predictedGaze_def predictGaze_def Let_def)

lemma processLandmarks_frame:
  assumes inv: "et_inv t" and l: "lms 468 = Some l" and r: "lms 473 = Some r"
  shows "\<exists>out t' g. processLandmarks t lms ts = Inr (Some out, t') \<and> et_inv t' \<and>
           fixationCount (out_features out) = 0 \<and> dwellTime (out_features out) = 0 \<and>
           refixationRatio (out_features out) = 0 \<and>
           calibrator t' =
             (if et_isCalibrating t then addGazeSample (calibrator t) lms (rawGazePoint t l r)
              else calibrator t) \<and>
           (model (calibrator t') = None \<longrightarrow> g = rawGazePoint t l r) \<and>
           (model (calibrator t') \<noteq> None \<longrightarrow> predictGaze (calibrator t') lms = Some g) \<and>
           gazeHistory (featureExtractor t') =
             gazeHistory (featureExtractor t) @ [\<lparr>gh_point = g, gh_timestamp = ts\<rparr>] \<and>
           out_gaze out = g"
proof -
  let ?raw = "rawGazePoint t l r"
  let ?t1 = "calibration_step t lms ?raw"
  note k = calibration_step_keeps[of t lms ?raw]
  from predictedGaze_some[of ?t1 lms ?raw] obtain g where
    gg: "predictedGaze ?t1 lms ?raw = Some g \<and>
         (model (calibrator ?t1) = None \<longrightarrow> g = ?raw) \<and>
         (model (calibrator ?t1) \<noteq> None \<longrightarrow> predictGaze (calibrator ?t1) lms = Some g)" ..
  from inv k have fe: "fixations (featureExtractor ?t1) = []"
    "\<not> truthy (lastFixationStart (featureExtractor ?t1))"
    and pos: "0 < fixationDuration (featureExtractor ?t1)"
    by (simp_all add: et_inv_def)
  from processGaze_no_candidate[OF fe, of g ts] obtain s' where
    ss: "processGaze (featureExtractor ?t1) g ts = Inr s' \<and> fixations s' = [] \<and>
         (\<not> truthy (lastFixationStart s') \<or> lastFixationStart s' = Some ts) \<and>
         lastGazeTimestamp s' = Some ts \<and> lastGazePoint s' = Some g \<and>
         fixationDuration s' = fixationDuration (featureExtractor ?t1) \<and>
         gazeHistory s' = gazeHistory (featureExtractor ?t1) @ [\<lparr>gh_point = g, gh_timestamp = ts\<rparr>]" ..
  from ss pos have pos': "0 < fixationDuration s'" by simp
  from ss have f: "fixations (flush s') = [] \<and> \<not> truthy (lastFixationStart (flush s')) \<and>
         fixationDuration (flush s') = fixationDuration s' \<and>
         gazeHistory (flush s') = gazeHistory s'"
    by (intro flush_discards[OF _ _ _ _ pos']) simp_all
  let ?t3 = "?t1\<lparr>et_gaze := g, featureExtractor := flush s'\<rparr>"
  let ?out = "frame_output ?t3 (aggregate (flush s'))"
  have pl: "processLandmarks t lms ts = Inr (Some ?out, ?t3)"
    using l r gg[THEN conjunct1] ss[THEN conjunct1]
    by (simp add: processLandmarks_def Let_def getMetrics_def)
  have i3: "et_inv ?t3"
    using f pos' by (simp add: et_inv_def)
  have m: "fixationCount (out_features ?out) = 0" "dwellTime (out_features ?out) = 0"
           "refixationRatio (out_features ?out) = 0"
    using aggregate_no_fixation[of "flush s'"] f by (simp_all add: frame_output_def)
  have c3: "calibrator ?t3 =
             (if et_isCalibrating t then addGazeSample (calibrator t) lms ?raw else calibrator t)"
    using k by simp
  have g3: "model (calibrator ?t3) = None \<longrightarrow> g = ?raw"
            "model (calibrator ?t3) \<noteq> None \<longrightarrow> predictGaze (calibrator ?t3) lms = Some g"
    using gg by simp_all
  have h3: "gazeHistory (featureExtractor ?t3) =
             gazeHistory (featureExtractor t) @ [\<lparr>gh_point = g, gh_timestamp = ts\<rparr>]"
    using f ss k by simp
  have o3: "out_gaze ?out = g"
    by (simp add: frame_output_def)
  show ?thesis
    using pl i3 m c3 g3 h3 o3
    by - (rule exI[of _ ?out], rule exI[of _ ?t3], rule exI[of _ g], intro conjI, assumption+)
qed

lemma processLandmarks_no_iris:
  "lms 468 = None \<or> lms 473 = None \<Longrightarrow> processLandmarks t lms ts = Inr (None, t)"
  by (auto simp: processLandmarks_def split: option.splits)

lemma et_inv_new: "et_inv (EyeTracker_new w h)"
  by (simp add: et_inv_def EyeTracker_new_def EyeFeatureExtractor_new_def)

lemma et_inv_start: "et_inv t \<Longrightarrow> et_inv (et_startCalibration t)"
  by (simp add: et_inv_def et_startCalibration_def reset_def Let_def)

lemma et_inv_move: "et_inv t \<Longrightarrow> et_inv (et_moveToNextCalibrationPoint t)"
  by (simp add: et_inv_def et_moveToNextCalibrationPoint_def Let_def)

lemma et_step_inv:
  assumes "et_inv t"
  shows "\<exists>rs t'. et_step t c = Inr (rs, t') \<and> et_inv t' \<and>
           (\<forall>out. Some out \<in> set rs \<longrightarrow>
              fixationCount (out_features out) = 0 \<and> dwellTime (out_features out) = 0 \<and>
              refixationRatio (out_features out) = 0)"
proof (cases c)
  case (ProcessLandmarks lms ts)
  show ?thesis
  proof (cases "lms 468 = None \<or> lms 473 = None")
    case True
    from processLandmarks_no_iris[OF this] assms ProcessLandmarks show ?thesis by simp
  next
    case False
    then obtain l r where "lms 468 = Some l" "lms 473 = Some r" by auto
    from processLandmarks_frame[OF assms this, of ts] ProcessLandmarks show ?thesis
      by (elim exE conjE) simp
  qed
next
  case StartCalibration
  with et_inv_start[OF assms] show ?thesis by simp
next
  case MoveToNextCalibrationPoint
  with et_inv_move[OF assms] show ?thesis by simp
qed

lemma et_run_inv:
  "et_inv t \<Longrightarrow>
     \<exists>rs t'. et_run t cs = Inr (rs, t') \<and> et_inv t' \<and>
       (\<forall>out. Some out \<in> set rs \<longrightarrow>
          fixationCount (out_features out) = 0 \<and> dwellTime (out_features out) = 0 \<and>
          refixationRatio (out_features out) = 0)"
proof (induction cs arbitrary: t)
  case Nil
  then show ?case by simp
next
  case (Cons c cs)
  from et_step_inv[OF Cons.prems, of c] obtain rs1 t1 where
    s1: "et_step t c = Inr (rs1, t1)" "et_inv t1"
        "\<forall>out. Some out \<in> set rs1 \<longrightarrow>
          fixationCount (out_features out) = 0 \<and> dwellTime (out_features out) = 0 \<and>
          refixationRatio (out_features out) = 0"
    by blast
  from Cons.IH[OF s1(2)] obtain rs2 t2 where
    s2: "et_run t1 cs = Inr (rs2, t2)" "et_inv t2"
        "\<forall>out. Some out \<in> set rs2 \<longrightarrow>
          fixationCount (out_features out) = 0 \<and> dwellTime (out_features out) = 0 \<and>
          refixationRatio (out_features out) = 0"
    by blast
  from s1 s2 show ?case by auto
qed

section \<open>Claims about the pipeline\<close>

text \<open>
  C2. For every sequence of calls on a new tracker (\<open>processLandmarks\<close> frames, and
  also \<open>startCalibration\<close> and \<open>moveToNextCalibrationPoint\<close>), the sequence runs
  without an exception, the fixations list of the segmenter stays empty, and every
  result returned by a frame has \<open>fixationCount = 0\<close>, \<open>dwellTime = 0\<close> and
  \<open>refixationRatio = 0\<close>: the \<open>getMetrics\<close> call at the end of every frame ends the
  candidate that the frame has just opened, at duration 0.
\<close>

theorem pipeline_never_emits_fixation:
  "\<exists>rs t. et_run (EyeTracker_new w h) calls = Inr (rs, t) \<and>
      fixations (featureExtractor t) = [] \<and>
      (\<forall>out. Some out \<in> set rs \<longrightarrow>
         fixationCount (out_features out) = 0 \<and> dwellTime (out_features out) = 0 \<and>
         refixationRatio (out_features out) = 0)"
  using et_run_inv[OF et_inv_new, of w h calls] by (auto simp: et_inv_def)

theorem pipeline_never_emits_fixation_witness:
  "\<exists>rs t. et_run (EyeTracker_new 360 640) dwell_frames = Inr (rs, t) \<and>
      fixations (featureExtractor t) = [] \<and>
      map (map_option (\<lambda>out. (fixationCount (out_features out),
                               gazeDuration (out_features out)))) rs
        = [Some (0, 0), Some (0, 100), Some (0, 300)] \<and>
      list_all (\<lambda>r. r \<noteq> None \<and> dwellTime (out_features (the r)) = 0 \<and>
                    refixationRatio (out_features (the r)) = 0) rs"
proof -
  from pipeline_never_emits_fixation[of 360 640 dwell_frames] obtain rs t where
    a: "et_run (EyeTracker_new 360 640) dwell_frames = Inr (rs, t)"
       "fixations (featureExtractor t) = []"
       "\<forall>out. Some out \<in> set rs \<longrightarrow>
         fixationCount (out_features out) = 0 \<and> dwellTime (out_features out) = 0 \<and>
         refixationRatio (out_features out) = 0"
    by blast
  from a(1) dwell_frames_run have
    b: "map (map_option (\<lambda>out. (fixationCount (out_features out),
                               gazeDuration (out_features out)))) rs
        = [Some (0, 0), Some (0, 100), Some (0, 300)]"
    by simp
  have "None \<notin> set (map (map_option (\<lambda>out. (fixationCount (out_features out),
                               gazeDuration (out_features out)))) rs)"
    unfolding b by simp
  then have nn: "None \<notin> set rs" by force
  have c: "list_all (\<lambda>r. r \<noteq> None \<and> dwellTime (out_features (the r)) = 0 \<and>
                    refixationRatio (out_features (the r)) = 0) rs"
    unfolding list_all_iff
  proof
    fix r assume r: "r \<in> set rs"
    with nn obtain out where "r = Some out" by (cases r) auto
    with a(3) r show "r \<noteq> None \<and> dwellTime (out_features (the r)) = 0 \<and>
                    refixationRatio (out_features (the r)) = 0"
      by simp
  qed
  show ?thesis
    using a(1,2) b c by (intro exI conjI) assumption+
qed

text \<open>
  C3, as the claim states it, fails: a frame processed while \<open>isCalibrating\<close> holds
  does change the segmenter. After \<open>startCalibration\<close> on a new tracker for a
  360 by 640 screen the gaze history is empty; one frame with both iris centres at
  \<open>(1/2, 1/2)\<close> appends the raw gaze point \<open>(180, 320)\<close> to it, and the tracker is
  still calibrating after the frame.
\<close>

theorem calibrating_frame_counterexample:
  "et_isCalibrating (et_startCalibration (EyeTracker_new 360 640)) \<and>
   gazeHistory (featureExtractor (et_startCalibration (EyeTracker_new 360 640))) = [] \<and>
   map_sum id (gazeHistory \<circ> featureExtractor \<circ> snd)
     (processLandmarks (et_startCalibration (EyeTracker_new 360 640)) iris_landmarks 1000)
     = Inr [\<lparr>gh_point = (180, 320), gh_timestamp = 1000\<rparr>] \<and>
   map_sum id (et_isCalibrating \<circ> snd)
     (processLandmarks (et_startCalibration (EyeTracker_new 360 640)) iris_landmarks 1000)
     = Inr True"
  by (simp add: et_eval seg_eval)

text \<open>
  C3, amended. In every state that a sequence of calls on a new tracker reaches, a
  frame with both iris landmarks returns a result; the calibrator takes the sample
  (\<open>addGazeSample\<close> with the raw gaze point) if the tracker's \<open>isCalibrating\<close> holds
  and is unchanged otherwise; and in both cases exactly one gaze point is appended to
  the gaze history of the segmenter and returned as \<open>gaze\<close>: the raw gaze point if the
  calibrator has no model after that step, the point predicted by the calibrator if it
  has one.
\<close>

theorem frame_feeds_segmenter:
  assumes "et_run (EyeTracker_new w h) calls = Inr (rs, t)"
    and "lms 468 = Some l" and "lms 473 = Some r"
  shows "\<exists>out t' g. processLandmarks t lms ts = Inr (Some out, t') \<and>
           calibrator t' =
             (if et_isCalibrating t then addGazeSample (calibrator t) lms (rawGazePoint t l r)
              else calibrator t) \<and>
           (model (calibrator t') = None \<longrightarrow> g = rawGazePoint t l r) \<and>
           (model (calibrator t') \<noteq> None \<longrightarrow> predictGaze (calibrator t') lms = Some g) \<and>
           gazeHistory (featureExtractor t') =
             gazeHistory (featureExtractor t) @ [\<lparr>gh_point = g, gh_timestamp = ts\<rparr>] \<and>
           out_gaze out = g"
proof -
  from et_run_inv[OF et_inv_new, of w h calls] assms(1) have "et_inv t" by auto
  from processLandmarks_frame[OF this assms(2,3), of ts] show ?thesis
    by (elim exE conjE, intro exI conjI) assumption+
qed

theorem frame_feeds_segmenter_witness:
  "et_run (EyeTracker_new 360 640) [StartCalibration]
     = Inr ([], et_startCalibration (EyeTracker_new 360 640)) \<and>
   iris_landmarks 468 = Some \<lparr>lm_x = 1 / 2, lm_y = 1 / 2, lm_z = 0\<rparr> \<and>
   iris_landmarks 473 = Some \<lparr>lm_x = 1 / 2, lm_y = 1 / 2, lm_z = 0\<rparr> \<and>
   (\<exists>out t' g.
      processLandmarks (et_startCalibration (EyeTracker_new 360 640)) iris_landmarks 1000
        = Inr (Some out, t') \<and>
      gazeHistory (featureExtractor t') =
        gazeHistory (featureExtractor (et_startCalibration (EyeTracker_new 360 640)))
          @ [\<lparr>gh_point = g, gh_timestamp = 1000\<rparr>] \<and>
      out_gaze out = g)"
proof -
  have h1: "et_run (EyeTracker_new 360 640) [StartCalibration]
     = Inr ([], et_startCalibration (EyeTracker_new 360 640))"
    by simp
  have h2: "iris_landmarks 468 = Some \<lparr>lm_x = 1 / 2, lm_y = 1 / 2, lm_z = 0\<rparr>"
    and h3: "iris_landmarks 473 = Some \<lparr>lm_x = 1 / 2, lm_y = 1 / 2, lm_z = 0\<rparr>"
    by (simp_all add: iris_landmarks_def)
  from frame_feeds_segmenter[OF h1 h2 h3, of 1000]
  have h4: "\<exists>out t' g.
      processLandmarks (et_startCalibration (EyeTracker_new 360 640)) iris_landmarks 1000
        = Inr (Some out, t') \<and>
      gazeHistory (featureExtractor t') =
        gazeHistory (featureExtractor (et_startCalibration (EyeTracker_new 360 640)))
          @ [\<lparr>gh_point = g, gh_timestamp = 1000\<rparr>] \<and>
      out_gaze out = g"
    by (elim exE conjE, intro exI conjI) assumption+
  show ?thesis
    using h1 h2 h3 h4 by - (intro conjI, assumption+)
qed

end
